theory Spec2Isabelle
  imports Main "HOL-Library.Sublist"
begin

section \<open>Application state container (AppProvider, context/AppContext.js)\<close>

text \<open>
  The provider, in its version with the pagination cursor, keeps six pieces of React state. One call of an operation is modelled as a
  function from the state of the render in which the operation was created to the state
  after React has applied the queued updates of that call. Identifiers are strings.
  \<open>hasMore\<close> is only ever read in boolean position, so the model stores its truth value.
\<close>

record filters =
  cuisine :: string
  diet :: string
  maxTime :: string

text \<open>
  The argument of \<open>updateFilters\<close> is an object carrying any subset of the three filter
  fields; \<open>None\<close> stands for a key that is not in the object.
\<close>

record newFilters =
  new_cuisine :: "string option"
  new_diet :: "string option"
  new_maxTime :: "string option"

record app_state =
  searchQuery :: string
  filters :: filters
  favorites :: "string list"
  currentPage :: int
  hasMore :: bool
  isLoadingMore :: bool

definition defaultFilters :: filters where
  "defaultFilters = \<lparr>cuisine = [], diet = [], maxTime = []\<rparr>"

definition initial_state :: app_state where
  "initial_state =
     \<lparr>searchQuery = [], filters = defaultFilters, favorites = [],
      currentPage = 1, hasMore = True, isLoadingMore = False\<rparr>"

text \<open>\<open>Array.prototype.includes\<close>: a left-to-right scan for an equal element.\<close>

primrec array_includes :: "'a list \<Rightarrow> 'a \<Rightarrow> bool" where
  "array_includes [] x = False"
| "array_includes (y # ys) x = (y = x \<or> array_includes ys x)"

definition addFavorite :: "string \<Rightarrow> app_state \<Rightarrow> app_state" where
  "addFavorite recipeId s =
     (if \<not> array_includes (favorites s) recipeId
      then s\<lparr>favorites := favorites s @ [recipeId]\<rparr>
      else s)"

definition removeFavorite :: "string \<Rightarrow> app_state \<Rightarrow> app_state" where
  "removeFavorite recipeId s =
     s\<lparr>favorites := filter (\<lambda>i. i \<noteq> recipeId) (favorites s)\<rparr>"

definition toggleFavorite :: "string \<Rightarrow> app_state \<Rightarrow> app_state" where
  "toggleFavorite recipeId s =
     (if array_includes (favorites s) recipeId
      then removeFavorite recipeId s
      else addFavorite recipeId s)"

definition isFavorite :: "string \<Rightarrow> app_state \<Rightarrow> bool" where
  "isFavorite recipeId s = array_includes (favorites s) recipeId"

text \<open>The object spread \<open>{...filters, ...newFilters}\<close>: a key of the overlay wins.\<close>

definition spread_filters :: "filters \<Rightarrow> newFilters \<Rightarrow> filters" where
  "spread_filters f n =
     \<lparr>cuisine = (case new_cuisine n of None \<Rightarrow> cuisine f | Some v \<Rightarrow> v),
      diet = (case new_diet n of None \<Rightarrow> diet f | Some v \<Rightarrow> v),
      maxTime = (case new_maxTime n of None \<Rightarrow> maxTime f | Some v \<Rightarrow> v)\<rparr>"

definition updateFilters :: "newFilters \<Rightarrow> app_state \<Rightarrow> app_state" where
  "updateFilters n s =
     s\<lparr>filters := spread_filters (filters s) n, currentPage := 1, hasMore := True\<rparr>"

definition resetFilters :: "app_state \<Rightarrow> app_state" where
  "resetFilters s = s\<lparr>filters := defaultFilters, currentPage := 1, hasMore := True\<rparr>"

definition resetPagination :: "app_state \<Rightarrow> app_state" where
  "resetPagination s = s\<lparr>currentPage := 1, hasMore := True, isLoadingMore := False\<rparr>"

definition loadNextPage :: "app_state \<Rightarrow> app_state" where
  "loadNextPage s =
     (if hasMore s \<and> \<not> isLoadingMore s then s\<lparr>currentPage := currentPage s + 1\<rparr> else s)"

text \<open>The raw state setters that the provider exports unchanged.\<close>

definition setSearchQuery :: "string \<Rightarrow> app_state \<Rightarrow> app_state" where
  "setSearchQuery q s = s\<lparr>searchQuery := q\<rparr>"

definition setHasMore :: "bool \<Rightarrow> app_state \<Rightarrow> app_state" where
  "setHasMore b s = s\<lparr>hasMore := b\<rparr>"

definition setIsLoadingMore :: "bool \<Rightarrow> app_state \<Rightarrow> app_state" where
  "setIsLoadingMore b s = s\<lparr>isLoadingMore := b\<rparr>"

text \<open>The pagination cursor of a state, as the triple the specification speaks of.\<close>

definition cursor :: "app_state \<Rightarrow> int \<times> bool \<times> bool" where
  "cursor s = (currentPage s, hasMore s, isLoadingMore s)"

section \<open>Recipes and thrown errors\<close>

text \<open>
  A recipe is a JSON object owned by the server. The identifier is always there; every
  other field the client reads may be missing (\<open>None\<close> is JavaScript's \<open>undefined\<close>).
\<close>

record recipe =
  recipe_id :: string
  recipe_name :: "string option"
  recipe_description :: "string option"
  recipe_image :: "string option"
  recipe_cuisine :: "string option"
  recipe_diet :: "string option"
  recipe_cookTime :: "int option"
  recipe_difficulty :: "string option"
  recipe_ingredients :: "string list option"

text \<open>A thrown JavaScript error, by constructor, with its \<open>message\<close>.\<close>

datatype js_error = Error string | TypeError string | SyntaxError string

fun message :: "js_error \<Rightarrow> string" where
  "message (Error m) = m"
| "message (TypeError m) = m"
| "message (SyntaxError m) = m"

section \<open>Recipe grid (components/RecipeGrid.js)\<close>

datatype grid_view =
  LoadingView
| ErrorView string
| EmptyView
| GridView "recipe list"

text \<open>\<open>if (error)\<close> tests truthiness: \<open>null\<close> and the empty string fall through.\<close>

definition RecipeGrid :: "recipe list \<Rightarrow> bool \<Rightarrow> string option \<Rightarrow> grid_view" where
  "RecipeGrid rs ld err =
     (if ld then LoadingView
      else case err of
        Some (c # cs) \<Rightarrow> ErrorView (c # cs)
      | _ \<Rightarrow> if rs = [] then EmptyView else GridView rs)"

section \<open>Browsing state machine (pages/Home.js)\<close>

text \<open>
  The home view adds its own state to the container's: the recipe list, the first-page
  loading flag, the error message, the in-flight guard \<open>loadingRef\<close>. The model also keeps
  the list of calls of \<open>fetchRecipes\<close> made so far, so that "no request is issued" can be
  stated. The awaited call either rejects with an error or resolves to a page: its recipe
  array and the truth value of its \<open>hasMore\<close>.
\<close>

record fetch_call =
  call_filters :: filters
  call_searchQuery :: string
  call_page :: int
  call_pageSize :: int

datatype fetch_outcome = Rejected js_error | Resolved "recipe list" bool

record home_state =
  ctx :: app_state
  recipes :: "recipe list"
  loading :: bool
  error :: "string option"
  loadingRef :: bool
  requests :: "fetch_call list"

definition home_initial :: home_state where
  "home_initial =
     \<lparr>ctx = initial_state, recipes = [], loading = True, error = None,
      loadingRef = False, requests = []\<rparr>"

definition mockRecipes :: "recipe list" where
  "mockRecipes =
     [\<lparr>recipe_id = ''1'',
       recipe_name = Some ''Classic Margherita Pizza'',
       recipe_description = Some ''A simple yet delicious Italian classic with fresh mozzarella, basil, and tomato sauce.'',
       recipe_image = Some ''https://via.placeholder.com/400x300?text=Pizza'',
       recipe_cuisine = Some ''Italian'',
       recipe_diet = Some ''Vegetarian'',
       recipe_cookTime = Some 30,
       recipe_difficulty = Some ''Easy'',
       recipe_ingredients = None\<rparr>,
      \<lparr>recipe_id = ''2'',
       recipe_name = Some ''Spicy Thai Green Curry'',
       recipe_description = Some ''An aromatic and spicy Thai curry with coconut milk, vegetables, and your choice of protein.'',
       recipe_image = Some ''https://via.placeholder.com/400x300?text=Curry'',
       recipe_cuisine = Some ''Thai'',
       recipe_diet = Some ''Gluten-Free'',
       recipe_cookTime = Some 45,
       recipe_difficulty = Some ''Medium'',
       recipe_ingredients = None\<rparr>,
      \<lparr>recipe_id = ''3'',
       recipe_name = Some ''Chocolate Lava Cake'',
       recipe_description = Some ''Decadent chocolate cake with a molten center, perfect for dessert lovers.'',
       recipe_image = Some ''https://via.placeholder.com/400x300?text=Dessert'',
       recipe_cuisine = Some ''French'',
       recipe_diet = None,
       recipe_cookTime = Some 25,
       recipe_difficulty = Some ''Hard'',
       recipe_ingredients = None\<rparr>]"

text \<open>
  \<open>loadRecipes\<close> is asynchronous. \<open>loadRecipes_start\<close> is the part that runs before the
  \<open>await\<close>: the guard, the flags, and the call of \<open>fetchRecipes\<close> with the filters and the
  search text of the current render. \<open>loadRecipes_settle\<close> is the part that runs when the
  call has settled: the \<open>try\<close> body or the \<open>catch\<close> block, then the \<open>finally\<close> block.
\<close>

definition loadRecipes_start :: "int \<Rightarrow> bool \<Rightarrow> home_state \<Rightarrow> home_state" where
  "loadRecipes_start page appending h =
     (if loadingRef h then h
      else
        let h1 = h\<lparr>loadingRef := True\<rparr>;
            h2 = (if appending then h1\<lparr>ctx := setIsLoadingMore True (ctx h1)\<rparr>
                  else h1\<lparr>loading := True, recipes := []\<rparr>);
            h3 = h2\<lparr>error := None\<rparr>
        in h3\<lparr>requests := requests h3 @
              [\<lparr>call_filters = filters (ctx h), call_searchQuery = searchQuery (ctx h),
                call_page = page, call_pageSize = 12\<rparr>]\<rparr>)"

definition loadRecipes_finally :: "home_state \<Rightarrow> home_state" where
  "loadRecipes_finally h =
     h\<lparr>loading := False, ctx := setIsLoadingMore False (ctx h), loadingRef := False\<rparr>"

definition loadRecipes_settle :: "bool \<Rightarrow> fetch_outcome \<Rightarrow> home_state \<Rightarrow> home_state" where
  "loadRecipes_settle appending outcome h =
     loadRecipes_finally
       (case outcome of
          Resolved rs hm \<Rightarrow>
            h\<lparr>recipes := (if appending then recipes h @ rs else rs),
              ctx := setHasMore hm (ctx h)\<rparr>
        | Rejected err \<Rightarrow>
            (let h1 = h\<lparr>error := Some (if message err \<noteq> [] then message err
                                         else ''Failed to load recipes'')\<rparr>
             in if \<not> appending
                then h1\<lparr>recipes := mockRecipes, ctx := setHasMore False (ctx h1)\<rparr>
                else h1))"

text \<open>The whole call, request and response taken together.\<close>

definition loadRecipes :: "int \<Rightarrow> bool \<Rightarrow> fetch_outcome \<Rightarrow> home_state \<Rightarrow> home_state" where
  "loadRecipes page appending outcome h =
     (if loadingRef h then h
      else loadRecipes_settle appending outcome (loadRecipes_start page appending h))"

text \<open>
  The two effects of the view, each up to the \<open>await\<close> inside \<open>loadRecipes\<close>. The query
  effect depends on the search text, the filters and \<open>resetPagination\<close>. The page effect
  depends on \<open>currentPage\<close> and \<open>loadRecipes\<close>; it reads the \<open>currentPage\<close> of the render it
  belongs to, which is its argument here.
\<close>

definition query_effect :: "home_state \<Rightarrow> home_state" where
  "query_effect h =
     loadRecipes_start 1 False (h\<lparr>ctx := resetPagination (ctx h), recipes := []\<rparr>)"

definition page_effect :: "int \<Rightarrow> home_state \<Rightarrow> home_state" where
  "page_effect page h = (if page > 1 then loadRecipes_start page True h else h)"



text \<open>
  What the view does after a render, given the state of the render before. When the
  provider's state has not changed, the provider has not rendered again and no dependency
  of the two effects has changed. When it has changed, the provider has rendered again
  and has created \<open>resetPagination\<close> anew, so the query effect runs; the page effect runs
  after it when \<open>currentPage\<close> has changed, or \<open>loadRecipes\<close> through the filters or the
  search text. States are compared by value, which is exact where only the cursor
  changes: its three parts are primitive values.
\<close>

definition after_render :: "home_state \<Rightarrow> home_state \<Rightarrow> home_state" where
  "after_render before h =
     (if ctx h = ctx before then h
      else if currentPage (ctx h) \<noteq> currentPage (ctx before) \<or>
              filters (ctx h) \<noteq> filters (ctx before) \<or>
              searchQuery (ctx h) \<noteq> searchQuery (ctx before)
        then page_effect (currentPage (ctx h)) (query_effect h)
        else query_effect h)"

text \<open>
  A page advance: \<open>loadNextPage\<close>, the effects after the render that follows, and the
  effects after the render that those effects cause. No further render follows
  (\<open>page_advance_settled\<close> below).
\<close>

definition page_advance :: "home_state \<Rightarrow> home_state" where
  "page_advance h =
     after_render (h\<lparr>ctx := loadNextPage (ctx h)\<rparr>)
       (after_render h (h\<lparr>ctx := loadNextPage (ctx h)\<rparr>))"

section \<open>Favorites persistence (the provider's save effect)\<close>

text \<open>
  \<open>JSON.stringify\<close> on an array of strings. A string is quoted as ECMAScript's
  QuoteJSONString does: the double quote and the backslash get a backslash, the control
  characters below 0x20 their short escape or \<open>u00XX\<close> with lower-case hex digits, and
  every other character stands for itself. The elements are joined by commas.
\<close>

definition hex_digit :: "nat \<Rightarrow> char" where
  "hex_digit n = ''0123456789abcdef'' ! (n mod 16)"

definition quote_char :: "char \<Rightarrow> string" where
  "quote_char c =
     (if c = CHR 0x22 then [CHR 0x5C, CHR 0x22]
      else if c = CHR 0x5C then [CHR 0x5C, CHR 0x5C]
      else if c = CHR 0x08 then [CHR 0x5C, CHR ''b'']
      else if c = CHR 0x09 then [CHR 0x5C, CHR ''t'']
      else if c = CHR 0x0A then [CHR 0x5C, CHR ''n'']
      else if c = CHR 0x0C then [CHR 0x5C, CHR ''f'']
      else if c = CHR 0x0D then [CHR 0x5C, CHR ''r'']
      else if (of_char c :: nat) < 32
        then [CHR 0x5C, CHR ''u'', CHR ''0'', CHR ''0'',
              hex_digit (of_char c div 16), hex_digit (of_char c mod 16)]
      else [c])"

definition QuoteJSONString :: "string \<Rightarrow> string" where
  "QuoteJSONString s = [CHR 0x22] @ concat (map quote_char s) @ [CHR 0x22]"

text \<open>\<open>Array.prototype.join\<close> on an array of strings.\<close>

fun join :: "string \<Rightarrow> string list \<Rightarrow> string" where
  "join sep [] = []"
| "join sep [x] = x"
| "join sep (x # y # ys) = x @ sep @ join sep (y # ys)"

definition JSON_stringify :: "string list \<Rightarrow> string" where
  "JSON_stringify xs = ''['' @ join '','' (map QuoteJSONString xs) @ '']''"

text \<open>
  The tab: the container's state, the browser's \<open>localStorage\<close>, and the lines written by
  \<open>console.error\<close>. \<open>setItem\<close> can throw (quota exceeded, storage disabled); whether this
  write succeeds is the browser's choice and is a parameter of the model.
\<close>

type_synonym storage = "string \<rightharpoonup> string"

record tab_state =
  app :: app_state
  localStorage :: storage
  console :: "string list"

definition setItem :: "bool \<Rightarrow> string \<Rightarrow> string \<Rightarrow> storage \<Rightarrow> js_error + storage" where
  "setItem writable k v st =
     (if writable then Inr (st(k \<mapsto> v)) else Inl (Error ''QuotaExceededError''))"

definition save_favorites_effect :: "bool \<Rightarrow> tab_state \<Rightarrow> tab_state" where
  "save_favorites_effect writable t =
     (case setItem writable ''recipe_favorites'' (JSON_stringify (favorites (app t)))
             (localStorage t) of
        Inr st \<Rightarrow> t\<lparr>localStorage := st\<rparr>
      | Inl e \<Rightarrow> t\<lparr>console := console t @ [''Error saving favorites to localStorage:'']\<rparr>)"

datatype favorites_action = AddFavorite string | RemoveFavorite string | ToggleFavorite string

fun apply_action :: "favorites_action \<Rightarrow> app_state \<Rightarrow> app_state" where
  "apply_action (AddFavorite i) s = addFavorite i s"
| "apply_action (RemoveFavorite i) s = removeFavorite i s"
| "apply_action (ToggleFavorite i) s = toggleFavorite i s"

text \<open>
  Whether the call reaches \<open>setFavorites\<close>: \<open>addFavorite\<close> only for an identifier that is
  not in the list, \<open>removeFavorite\<close> always, \<open>toggleFavorite\<close> through one of the two. Each
  of these calls passes a fresh array, so the effect that depends on \<open>favorites\<close> runs
  after the render that follows; without such a call it does not run.
\<close>

fun calls_setFavorites :: "favorites_action \<Rightarrow> app_state \<Rightarrow> bool" where
  "calls_setFavorites (AddFavorite i) s = (\<not> array_includes (favorites s) i)"
| "calls_setFavorites (RemoveFavorite i) s = True"
| "calls_setFavorites (ToggleFavorite i) s =
     (if array_includes (favorites s) i then True
      else \<not> array_includes (favorites s) i)"

definition favorites_mutation :: "bool \<Rightarrow> favorites_action \<Rightarrow> tab_state \<Rightarrow> tab_state" where
  "favorites_mutation writable a t =
     (if calls_setFavorites a (app t)
      then save_favorites_effect writable (t\<lparr>app := apply_action a (app t)\<rparr>)
      else t\<lparr>app := apply_action a (app t)\<rparr>)"

text \<open>The store mirrors the memory: the key holds the serialization of the list.\<close>

definition mirrored :: "tab_state \<Rightarrow> bool" where
  "mirrored t \<longleftrightarrow>
     localStorage t ''recipe_favorites'' = Some (JSON_stringify (favorites (app t)))"

text \<open>
  A run of the tab: mutations one after the other, each with the browser's answer to the
  write it may cause.
\<close>

fun run_mutations :: "(bool \<times> favorites_action) list \<Rightarrow> tab_state \<Rightarrow> tab_state" where
  "run_mutations [] t = t"
| "run_mutations ((writable, a) # steps) t = run_mutations steps (favorites_mutation writable a t)"

section \<open>API client (api/client.js)\<close>

text \<open>
  A response body is a JSON value. Numbers in the payloads are whole (counts, page
  numbers, minutes). An object is the list of its members in the order of the text; a
  later member with the same key replaces an earlier one, as \<open>JSON.parse\<close> has it. A
  JavaScript value read from a property is a JSON value or \<open>undefined\<close> (\<open>None\<close>).
\<close>

datatype json =
  JNull
| JBool bool
| JNum int
| JStr string
| JArr "json list"
| JObj "(string \<times> json) list"

type_synonym js_value = "json option"

fun truthy :: "js_value \<Rightarrow> bool" where
  "truthy None = False"
| "truthy (Some JNull) = False"
| "truthy (Some (JBool b)) = b"
| "truthy (Some (JNum n)) = (n \<noteq> 0)"
| "truthy (Some (JStr s)) = (s \<noteq> [])"
| "truthy (Some (JArr xs)) = True"
| "truthy (Some (JObj kvs)) = True"

text \<open>The operator \<open>||\<close>: the left operand when it is truthy, else the right one.\<close>

definition js_or :: "js_value \<Rightarrow> js_value \<Rightarrow> js_value" where
  "js_or a b = (if truthy a then a else b)"

text \<open>
  Reading one of the properties \<open>recipes\<close>, \<open>data\<close>, \<open>total\<close>, \<open>hasMore\<close>, \<open>page\<close> of a
  value that is not \<open>null\<close>: an object yields its member, every other value
  \<open>undefined\<close> (no boolean, number, string or array has a property of these names).
\<close>

fun get_prop :: "json \<Rightarrow> string \<Rightarrow> js_value" where
  "get_prop (JObj kvs) k = map_of (rev kvs) k"
| "get_prop v k = None"

text \<open>\<open>Number.prototype.toString\<close> on a whole number: its decimal digits.\<close>

fun decimal :: "nat \<Rightarrow> string" where
  "decimal n =
     (if n < 10 then [''0123456789'' ! n]
      else decimal (n div 10) @ [''0123456789'' ! (n mod 10)])"

declare decimal.simps [simp del]

definition toString :: "int \<Rightarrow> string" where
  "toString i = (if i < 0 then CHR ''-'' # decimal (nat (- i)) else decimal (nat i))"

text \<open>
  A request is the endpoint's path and the entries of its \<open>URLSearchParams\<close> in the order
  they were appended. The network answers a request with a rejection or with a response:
  status, status text, and what \<open>response.json()\<close> gives.
\<close>

record api_request =
  req_path :: string
  req_params :: "(string \<times> string) list"

datatype http_response = Response nat string "js_error + json"

fun response_status :: "http_response \<Rightarrow> nat" where
  "response_status (Response st txt body) = st"

fun response_statusText :: "http_response \<Rightarrow> string" where
  "response_statusText (Response st txt body) = txt"

fun response_json :: "http_response \<Rightarrow> js_error + json" where
  "response_json (Response st txt body) = body"

definition response_ok :: "http_response \<Rightarrow> bool" where
  "response_ok r \<longleftrightarrow> 200 \<le> response_status r \<and> response_status r \<le> 299"

type_synonym network = "api_request \<Rightarrow> js_error + http_response"

definition apiGet :: "network \<Rightarrow> api_request \<Rightarrow> js_error + json" where
  "apiGet net req =
     (case net req of
        Inl e \<Rightarrow> Inl e
      | Inr response \<Rightarrow>
          if \<not> response_ok response
          then Inl (Error (''API request failed: '' @ toString (int (response_status response))
                           @ '' '' @ response_statusText response))
          else response_json response)"

definition recipes_request :: "filters \<Rightarrow> string \<Rightarrow> int \<Rightarrow> int \<Rightarrow> api_request" where
  "recipes_request flt q page pageSize =
     \<lparr>req_path = ''/recipes'',
      req_params =
        (if q \<noteq> [] then [(''search'', q)] else []) @
        (if cuisine flt \<noteq> [] then [(''cuisine'', cuisine flt)] else []) @
        (if diet flt \<noteq> [] then [(''diet'', diet flt)] else []) @
        (if maxTime flt \<noteq> [] then [(''maxTime'', maxTime flt)] else []) @
        [(''page'', toString page), (''pageSize'', toString pageSize)]\<rparr>"

record page_result =
  res_recipes :: js_value
  res_total :: js_value
  res_hasMore :: js_value
  res_page :: js_value

text \<open>
  \<open>fetchRecipes\<close>. A bare array is wrapped. Otherwise the four properties are read from
  the payload, which throws when the payload is \<open>null\<close>.
\<close>

definition fetchRecipes ::
  "network \<Rightarrow> filters \<Rightarrow> string \<Rightarrow> int \<Rightarrow> int \<Rightarrow> js_error + page_result" where
  "fetchRecipes net flt q page pageSize =
     (case apiGet net (recipes_request flt q page pageSize) of
        Inl e \<Rightarrow> Inl e
      | Inr result \<Rightarrow>
          (case result of
             JArr xs \<Rightarrow>
               Inr \<lparr>res_recipes = Some result,
                    res_total = Some (JNum (int (length xs))),
                    res_hasMore = Some (JBool False),
                    res_page = Some (JNum 1)\<rparr>
           | JNull \<Rightarrow> Inl (TypeError ''Cannot read properties of null'')
           | _ \<Rightarrow>
               Inr \<lparr>res_recipes =
                      js_or (js_or (get_prop result ''recipes'') (get_prop result ''data''))
                            (Some (JArr [])),
                    res_total = js_or (get_prop result ''total'') (Some (JNum 0)),
                    res_hasMore =
                      (if get_prop result ''hasMore'' \<noteq> None then get_prop result ''hasMore''
                       else Some (JBool False)),
                    res_page = js_or (get_prop result ''page'') (Some (JNum page))\<rparr>))"

text \<open>A network that answers every request with status 200 and the given body.\<close>

definition respond_with :: "json \<Rightarrow> network" where
  "respond_with payload = (\<lambda>req. Inr (Response 200 ''OK'' (Inr payload)))"

section \<open>Favorites view (pages/Favorites.js)\<close>

text \<open>
  Strings are ASCII text. \<open>toLowerCase\<close> maps the letters A to Z to a to z;
  \<open>String.prototype.includes\<close> asks whether the argument occurs as a contiguous part.
\<close>

definition lower_char :: "char \<Rightarrow> char" where
  "lower_char c =
     (case map_of (zip ''ABCDEFGHIJKLMNOPQRSTUVWXYZ'' ''abcdefghijklmnopqrstuvwxyz'') c of
        None \<Rightarrow> c
      | Some l \<Rightarrow> l)"

definition toLowerCase :: "string \<Rightarrow> string" where
  "toLowerCase s = map lower_char s"

definition str_includes :: "string \<Rightarrow> string \<Rightarrow> bool" where
  "str_includes s part = sublist part s"

text \<open>
  \<open>parseInt(s, 10)\<close>: leading white space is skipped, one sign is read, then the longest
  run of decimal digits; without a digit the result is \<open>NaN\<close> (\<open>None\<close>).
\<close>

definition is_space :: "char \<Rightarrow> bool" where
  "is_space c \<longleftrightarrow> c \<in> set [CHR 0x09, CHR 0x0A, CHR 0x0B, CHR 0x0C, CHR 0x0D, CHR 0x20]"

definition is_digit :: "char \<Rightarrow> bool" where
  "is_digit c \<longleftrightarrow> 48 \<le> (of_char c :: nat) \<and> (of_char c :: nat) \<le> 57"

definition digits_value :: "string \<Rightarrow> int" where
  "digits_value ds = foldl (\<lambda>acc c. acc * 10 + (int (of_char c) - 48)) 0 ds"

definition parseInt :: "string \<Rightarrow> int option" where
  "parseInt s =
     (let s1 = dropWhile is_space s;
          negative = (take 1 s1 = ''-'');
          s2 = (if take 1 s1 = ''-'' \<or> take 1 s1 = ''+'' then drop 1 s1 else s1);
          ds = takeWhile is_digit s2
      in if ds = [] then None
         else Some (if negative then - digits_value ds else digits_value ds))"

text \<open>
  \<open>Array.prototype.filter\<close> with a callback that may throw: the elements are visited in
  order and the first exception ends the whole call.
\<close>

fun filter_throwing :: "('a \<Rightarrow> js_error + bool) \<Rightarrow> 'a list \<Rightarrow> js_error + 'a list" where
  "filter_throwing p [] = Inr []"
| "filter_throwing p (x # xs) =
     (case p x of
        Inl e \<Rightarrow> Inl e
      | Inr b \<Rightarrow>
          (case filter_throwing p xs of
             Inl e \<Rightarrow> Inl e
           | Inr ys \<Rightarrow> Inr (if b then x # ys else ys)))"

text \<open>
  The four callbacks of \<open>favoriteRecipes\<close>. Calling \<open>toLowerCase\<close> on a missing \<open>name\<close>,
  \<open>cuisine\<close> or \<open>diet\<close> is a TypeError; \<open>||\<close> stops at the first operand that holds; a
  missing \<open>ingredients\<close> makes the last operand \<open>undefined\<close>, which counts as false; a
  comparison with \<open>undefined\<close> or \<open>NaN\<close> is false.
\<close>

definition matches_search :: "string \<Rightarrow> recipe \<Rightarrow> js_error + bool" where
  "matches_search lowercasedQuery r =
     (case recipe_name r of
        None \<Rightarrow> Inl (TypeError ''recipe.name is undefined'')
      | Some n \<Rightarrow>
          if str_includes (toLowerCase n) lowercasedQuery then Inr True
          else
            (case recipe_cuisine r of
               None \<Rightarrow> Inl (TypeError ''recipe.cuisine is undefined'')
             | Some c \<Rightarrow>
                 if str_includes (toLowerCase c) lowercasedQuery then Inr True
                 else
                   (case recipe_ingredients r of
                      None \<Rightarrow> Inr False
                    | Some ings \<Rightarrow>
                        Inr (str_includes (toLowerCase (join '' '' ings)) lowercasedQuery))))"

definition cuisine_matches :: "filters \<Rightarrow> recipe \<Rightarrow> js_error + bool" where
  "cuisine_matches flt r =
     (case recipe_cuisine r of
        None \<Rightarrow> Inl (TypeError ''recipe.cuisine is undefined'')
      | Some c \<Rightarrow> Inr (toLowerCase c = toLowerCase (cuisine flt)))"

definition diet_matches :: "filters \<Rightarrow> recipe \<Rightarrow> js_error + bool" where
  "diet_matches flt r =
     (case recipe_diet r of
        None \<Rightarrow> Inl (TypeError ''recipe.diet is undefined'')
      | Some d \<Rightarrow> Inr (toLowerCase d = toLowerCase (diet flt)))"

definition within_maxTime :: "filters \<Rightarrow> recipe \<Rightarrow> bool" where
  "within_maxTime flt r =
     (case recipe_cookTime r of
        None \<Rightarrow> False
      | Some t \<Rightarrow> (case parseInt (maxTime flt) of None \<Rightarrow> False | Some m \<Rightarrow> t \<le> m))"

definition favoriteRecipes ::
  "recipe list \<Rightarrow> string list \<Rightarrow> string \<Rightarrow> filters \<Rightarrow> js_error + recipe list" where
  "favoriteRecipes allRecipes favs q flt =
     (case (if q \<noteq> []
            then filter_throwing (matches_search (toLowerCase q))
                   (filter (\<lambda>recipe. array_includes favs (recipe_id recipe)) allRecipes)
            else Inr (filter (\<lambda>recipe. array_includes favs (recipe_id recipe)) allRecipes)) of
        Inl e \<Rightarrow> Inl e
      | Inr r1 \<Rightarrow>
     (case (if cuisine flt \<noteq> [] then filter_throwing (cuisine_matches flt) r1 else Inr r1) of
        Inl e \<Rightarrow> Inl e
      | Inr r2 \<Rightarrow>
     (case (if diet flt \<noteq> [] then filter_throwing (diet_matches flt) r2 else Inr r2) of
        Inl e \<Rightarrow> Inl e
      | Inr r3 \<Rightarrow>
          Inr (if maxTime flt \<noteq> [] then filter (within_maxTime flt) r3 else r3))))"

text \<open>
  The view as the specification words it: the recipes whose identifier is a favorite,
  narrowed by the search text (a case-insensitive substring of the name, of the cuisine
  or of the ingredients joined by spaces) and by the filter selection (cuisine and diet
  equal up to case, cook time at most the ceiling). A field that is missing matches
  nothing.
\<close>

definition contains_ci :: "string option \<Rightarrow> string \<Rightarrow> bool" where
  "contains_ci field q =
     (case field of None \<Rightarrow> False | Some s \<Rightarrow> sublist (toLowerCase q) (toLowerCase s))"

definition equals_ci :: "string option \<Rightarrow> string \<Rightarrow> bool" where
  "equals_ci field v =
     (case field of None \<Rightarrow> False | Some s \<Rightarrow> toLowerCase s = toLowerCase v)"

definition search_spec :: "string \<Rightarrow> recipe \<Rightarrow> bool" where
  "search_spec q r \<longleftrightarrow>
     contains_ci (recipe_name r) q \<or> contains_ci (recipe_cuisine r) q \<or>
     contains_ci (map_option (join '' '') (recipe_ingredients r)) q"

definition favorites_view_spec :: "string list \<Rightarrow> string \<Rightarrow> filters \<Rightarrow> recipe \<Rightarrow> bool" where
  "favorites_view_spec favs q flt r \<longleftrightarrow>
     recipe_id r \<in> set favs \<and>
     (q = [] \<or> search_spec q r) \<and>
     (cuisine flt = [] \<or> equals_ci (recipe_cuisine r) (cuisine flt)) \<and>
     (diet flt = [] \<or> equals_ci (recipe_diet r) (diet flt)) \<and>
     (maxTime flt = [] \<or>
        (case recipe_cookTime r of
           None \<Rightarrow> False
         | Some t \<Rightarrow> (case parseInt (maxTime flt) of None \<Rightarrow> False | Some m \<Rightarrow> t \<le> m)))"

text \<open>
  A recipe carries every field that the search text and the filters in force read from it:
  name and cuisine under a search text, cuisine under a cuisine filter, diet under a diet
  filter.
\<close>

definition fields_present :: "string \<Rightarrow> filters \<Rightarrow> recipe \<Rightarrow> bool" where
  "fields_present q flt r \<longleftrightarrow>
     (q = [] \<or> (recipe_name r \<noteq> None \<and> recipe_cuisine r \<noteq> None)) \<and>
     (cuisine flt = [] \<or> recipe_cuisine r \<noteq> None) \<and>
     (diet flt = [] \<or> recipe_diet r \<noteq> None)"

text \<open>The two recipes of the specification's example; they carry three fields only.\<close>

definition example_recipes :: "recipe list" where
  "example_recipes =
     [\<lparr>recipe_id = ''1'', recipe_name = None, recipe_description = None,
       recipe_image = None, recipe_cuisine = Some ''Italian'', recipe_diet = None,
       recipe_cookTime = Some 30, recipe_difficulty = None, recipe_ingredients = None\<rparr>,
      \<lparr>recipe_id = ''2'', recipe_name = None, recipe_description = None,
       recipe_image = None, recipe_cuisine = Some ''Thai'', recipe_diet = None,
       recipe_cookTime = Some 60, recipe_difficulty = None, recipe_ingredients = None\<rparr>]"

section \<open>Favorites: membership, idempotence, order\<close>

lemma includes_set: "array_includes xs x \<longleftrightarrow> x \<in> set xs"
  by (induction xs) auto

lemma filter_absent: "x \<notin> set xs \<Longrightarrow> filter (\<lambda>i. i \<noteq> x) xs = xs"
  by (induction xs) auto

lemma favorites_addFavorite:
  "favorites (addFavorite x s) = (if x \<in> set (favorites s) then favorites s else favorites s @ [x])"
  by (simp add: addFavorite_def includes_set)

lemma favorites_removeFavorite:
  "favorites (removeFavorite x s) = filter (\<lambda>i. i \<noteq> x) (favorites s)"
  by (simp add: removeFavorite_def)

lemma favorites_toggleFavorite:
  "favorites (toggleFavorite x s) =
     (if x \<in> set (favorites s) then filter (\<lambda>i. i \<noteq> x) (favorites s) else favorites s @ [x])"
  by (simp add: toggleFavorite_def includes_set favorites_addFavorite favorites_removeFavorite)

text \<open>
  C5. Adding an identifier that is already a favorite and removing one that is not leave
  the state as it was, and a second \<open>addFavorite\<close> (or \<open>removeFavorite\<close>) with the same
  identifier changes nothing after the first.
\<close>

theorem favorites_mutations_idempotent:
  "(x \<in> set (favorites s) \<longrightarrow> addFavorite x s = s) \<and>
   (x \<notin> set (favorites s) \<longrightarrow> removeFavorite x s = s) \<and>
   addFavorite x (addFavorite x s) = addFavorite x s \<and>
   removeFavorite x (removeFavorite x s) = removeFavorite x s"
proof -
  have add_present: "x \<in> set (favorites s) \<longrightarrow> addFavorite x s = s"
    by (simp add: addFavorite_def includes_set)
  have remove_absent: "x \<notin> set (favorites s) \<longrightarrow> removeFavorite x s = s"
    by (simp add: removeFavorite_def filter_absent)
  have add_twice: "addFavorite x (addFavorite x s) = addFavorite x s"
    by (simp add: addFavorite_def includes_set)
  have remove_twice: "removeFavorite x (removeFavorite x s) = removeFavorite x s"
    by (simp add: removeFavorite_def)
  from add_present remove_absent add_twice remove_twice show ?thesis by blast
qed

theorem favorites_mutations_idempotent_witness:
  "''7'' \<in> set (favorites (initial_state\<lparr>favorites := [''3'', ''7'']\<rparr>)) \<and>
   addFavorite ''7'' (initial_state\<lparr>favorites := [''3'', ''7'']\<rparr>)
     = initial_state\<lparr>favorites := [''3'', ''7'']\<rparr> \<and>
   ''9'' \<notin> set (favorites (initial_state\<lparr>favorites := [''3'', ''7'']\<rparr>)) \<and>
   removeFavorite ''9'' (initial_state\<lparr>favorites := [''3'', ''7'']\<rparr>)
     = initial_state\<lparr>favorites := [''3'', ''7'']\<rparr>"
  using favorites_mutations_idempotent [of "''7''" "initial_state\<lparr>favorites := [''3'', ''7'']\<rparr>"]
    favorites_mutations_idempotent [of "''9''" "initial_state\<lparr>favorites := [''3'', ''7'']\<rparr>"]
  by simp

text \<open>
  C10. On a duplicate-free favorites list each of the three mutations yields a
  duplicate-free list; \<open>isFavorite\<close> afterwards answers membership in the new list;
  \<open>removeFavorite\<close> keeps the remaining identifiers in their order (the result is a
  subsequence of the old list holding exactly the other identifiers); and \<open>addFavorite\<close>
  of a new identifier puts it at the end.
\<close>

theorem favorites_distinct_and_ordered:
  assumes "distinct (favorites s)"
  shows "distinct (favorites (addFavorite x s)) \<and>
         distinct (favorites (removeFavorite x s)) \<and>
         distinct (favorites (toggleFavorite x s)) \<and>
         (isFavorite y (addFavorite x s) \<longleftrightarrow> y \<in> set (favorites (addFavorite x s))) \<and>
         (isFavorite y (removeFavorite x s) \<longleftrightarrow> y \<in> set (favorites (removeFavorite x s))) \<and>
         (isFavorite y (toggleFavorite x s) \<longleftrightarrow> y \<in> set (favorites (toggleFavorite x s))) \<and>
         subseq (favorites (removeFavorite x s)) (favorites s) \<and>
         set (favorites (removeFavorite x s)) = set (favorites s) - {x} \<and>
         (x \<notin> set (favorites s) \<longrightarrow> favorites (addFavorite x s) = favorites s @ [x])"
proof -
  have d_add: "distinct (favorites (addFavorite x s))"
    using assms by (simp add: favorites_addFavorite)
  have d_remove: "distinct (favorites (removeFavorite x s))"
    using assms by (simp add: favorites_removeFavorite)
  have d_toggle: "distinct (favorites (toggleFavorite x s))"
    using assms by (simp add: favorites_toggleFavorite)
  have member: "isFavorite y t \<longleftrightarrow> y \<in> set (favorites t)" for t
    by (simp add: isFavorite_def includes_set)
  have order: "subseq (favorites (removeFavorite x s)) (favorites s)"
    by (simp add: favorites_removeFavorite)
  have rest: "set (favorites (removeFavorite x s)) = set (favorites s) - {x}"
    by (auto simp: favorites_removeFavorite)
  have appended: "x \<notin> set (favorites s) \<longrightarrow> favorites (addFavorite x s) = favorites s @ [x]"
    by (simp add: favorites_addFavorite)
  from d_add d_remove d_toggle member order rest appended show ?thesis by blast
qed

theorem favorites_distinct_and_ordered_witness:
  "distinct (favorites (initial_state\<lparr>favorites := [''3'', ''7'', ''5'']\<rparr>)) \<and>
   favorites (removeFavorite ''7'' (initial_state\<lparr>favorites := [''3'', ''7'', ''5'']\<rparr>))
     = [''3'', ''5''] \<and>
   distinct (favorites (toggleFavorite ''9'' (initial_state\<lparr>favorites := [''3'', ''7'', ''5'']\<rparr>))) \<and>
   favorites (addFavorite ''9'' (initial_state\<lparr>favorites := [''3'', ''7'', ''5'']\<rparr>))
     = [''3'', ''7'', ''5'', ''9'']"
proof -
  have d: "distinct (favorites (initial_state\<lparr>favorites := [''3'', ''7'', ''5'']\<rparr>))"
    by simp
  from favorites_distinct_and_ordered [OF d, of "''9''" "''9''"]
  have "distinct (favorites (toggleFavorite ''9'' (initial_state\<lparr>favorites := [''3'', ''7'', ''5'']\<rparr>)))"
    and "favorites (addFavorite ''9'' (initial_state\<lparr>favorites := [''3'', ''7'', ''5'']\<rparr>))
           = favorites (initial_state\<lparr>favorites := [''3'', ''7'', ''5'']\<rparr>) @ [''9'']"
    by simp_all
  with d show ?thesis by (simp add: favorites_removeFavorite)
qed

section \<open>Filters, search text and the pagination cursor\<close>

text \<open>
  C1, as the code has it. \<open>updateFilters\<close> (with any fields) and \<open>resetFilters\<close> set the page
  to 1 and \<open>hasMore\<close> to true. The full triple (1, true, false) is what \<open>resetPagination\<close>
  establishes, and the home view's effect for a changed search text or filter selection,
  which calls \<open>resetPagination\<close>, leaves the cursor at that triple. \<open>setSearchQuery\<close> by
  itself stores the text and leaves the cursor alone.
\<close>

theorem filter_mutations_reset_page:
  "currentPage (updateFilters n s) = 1 \<and> hasMore (updateFilters n s) \<and>
   currentPage (resetFilters s) = 1 \<and> hasMore (resetFilters s) \<and>
   cursor (resetPagination s) = (1, True, False) \<and>
   cursor (setSearchQuery q s) = cursor s \<and>
   cursor (ctx (query_effect h)) = (1, True, False)"
proof -
  have upd: "currentPage (updateFilters n s) = 1 \<and> hasMore (updateFilters n s)"
    by (simp add: updateFilters_def)
  have rst: "currentPage (resetFilters s) = 1 \<and> hasMore (resetFilters s)"
    by (simp add: resetFilters_def)
  have pag: "cursor (resetPagination s) = (1, True, False)"
    by (simp add: cursor_def resetPagination_def)
  have qry: "cursor (setSearchQuery q s) = cursor s"
    by (simp add: cursor_def setSearchQuery_def)
  have eff: "cursor (ctx (query_effect h)) = (1, True, False)"
    by (simp add: cursor_def query_effect_def loadRecipes_start_def resetPagination_def Let_def)
  from upd rst pag qry eff show ?thesis by blast
qed

text \<open>
  The claim as written fails: a filter change made while a further page is loading leaves
  \<open>isLoadingMore\<close> set, and a new search text does not move the cursor at all.
\<close>

theorem filter_mutations_cursor_counterexample:
  "cursor (updateFilters \<lparr>new_cuisine = Some ''thai'', new_diet = None, new_maxTime = None\<rparr>
             (initial_state\<lparr>currentPage := 2, isLoadingMore := True\<rparr>)) \<noteq> (1, True, False) \<and>
   cursor (resetFilters (initial_state\<lparr>currentPage := 2, isLoadingMore := True\<rparr>))
     \<noteq> (1, True, False) \<and>
   cursor (setSearchQuery ''curry'' (initial_state\<lparr>currentPage := 3, hasMore := False\<rparr>))
     \<noteq> (1, True, False)"
  by (simp add: cursor_def updateFilters_def resetFilters_def setSearchQuery_def initial_state_def)

section \<open>Page advance and the in-flight guard\<close>



lemma loadRecipes_guarded:
  "loadingRef h \<Longrightarrow> loadRecipes_start page appending h = h \<and> loadRecipes page appending outcome h = h"
  by (simp add: loadRecipes_start_def loadRecipes_def)

text \<open>The query effect always leaves the guard set, so the page effect after it is dropped.\<close>

lemma query_effect_takes_guard: "loadingRef (query_effect h)"
  by (simp add: query_effect_def loadRecipes_start_def Let_def)

lemma page_effect_after_query_effect: "page_effect page (query_effect h) = query_effect h"
  by (simp add: page_effect_def loadRecipes_guarded query_effect_takes_guard)

lemma after_render_changed:
  "ctx h \<noteq> ctx before \<Longrightarrow> after_render before h = query_effect h"
  by (simp add: after_render_def page_effect_after_query_effect)

lemma query_effect_guarded:
  "loadingRef h \<Longrightarrow>
     query_effect h = h\<lparr>ctx := resetPagination (ctx h), recipes := []\<rparr>"
  by (simp add: query_effect_def loadRecipes_start_def)

lemma query_effect_twice: "query_effect (query_effect h) = query_effect h"
proof -
  have "query_effect (query_effect h)
          = (query_effect h)\<lparr>ctx := resetPagination (ctx (query_effect h)), recipes := []\<rparr>"
    by (rule query_effect_guarded [OF query_effect_takes_guard])
  also have "\<dots> = query_effect h"
    by (simp add: query_effect_def loadRecipes_start_def resetPagination_def Let_def)
  finally show ?thesis .
qed

lemma after_render_query_effect: "after_render before (query_effect h) = query_effect h"
  by (simp add: after_render_def page_effect_after_query_effect query_effect_twice)

lemma page_advance_eq:
  "page_advance h =
     (if loadNextPage (ctx h) = ctx h then h
      else query_effect (h\<lparr>ctx := loadNextPage (ctx h)\<rparr>))"
proof (cases "loadNextPage (ctx h) = ctx h")
  case True
  then have "h\<lparr>ctx := loadNextPage (ctx h)\<rparr> = h" by simp
  with True show ?thesis by (simp add: page_advance_def after_render_def)
next
  case False
  then have "after_render h (h\<lparr>ctx := loadNextPage (ctx h)\<rparr>)
               = query_effect (h\<lparr>ctx := loadNextPage (ctx h)\<rparr>)"
    by (simp add: after_render_changed)
  with False show ?thesis
    by (simp add: page_advance_def after_render_query_effect)
qed

text \<open>After a page advance the view is at rest: one more round of effects changes nothing.\<close>

lemma page_advance_settled:
  "after_render (after_render h (h\<lparr>ctx := loadNextPage (ctx h)\<rparr>)) (page_advance h)
     = page_advance h"
proof (cases "loadNextPage (ctx h) = ctx h")
  case True
  then show ?thesis by (simp add: page_advance_eq after_render_def)
next
  case False
  then show ?thesis by (simp add: page_advance_eq after_render_query_effect)
qed



text \<open>
  Right after the view has been created, with the first page in flight, the guard flag is
  set while \<open>hasMore\<close> is true and \<open>isLoadingMore\<close> is false, and \<open>loadNextPage\<close> moves the
  page counter.
\<close>

lemma guard_only_state_reachable:
  "loadingRef (query_effect home_initial) \<and> hasMore (ctx (query_effect home_initial)) \<and>
   \<not> isLoadingMore (ctx (query_effect home_initial)) \<and>
   currentPage (ctx (query_effect home_initial)) = 1 \<and>
   currentPage (loadNextPage (ctx (query_effect home_initial))) = 2"
  by (simp add: query_effect_def loadRecipes_start_def Let_def loadNextPage_def
      resetPagination_def home_initial_def initial_state_def)




section \<open>Failure of the first-page request\<close>

lemma length_mockRecipes: "length mockRecipes = 3"
  by (simp add: mockRecipes_def)

text \<open>
  Both kinds of failure reach the view as a rejection of \<open>fetchRecipes\<close>: a transport
  error as it is, a status outside 200 to 299 as the error that \<open>apiGet\<close> builds.
\<close>

lemma fetchRecipes_rejects:
  "net (recipes_request flt q page pageSize) = Inl e \<Longrightarrow>
     fetchRecipes net flt q page pageSize = Inl e"
  "net (recipes_request flt q page pageSize) = Inr (Response st txt body) \<Longrightarrow>
     st < 200 \<or> 299 < st \<Longrightarrow>
     fetchRecipes net flt q page pageSize
       = Inl (Error (''API request failed: '' @ toString (int st) @ '' '' @ txt))"
  by (auto simp: fetchRecipes_def apiGet_def response_ok_def)

text \<open>
  C3. When the first-page request fails, the view's state holds a non-empty error message,
  exactly the three sample recipes, and \<open>hasMore\<close> false. What the grid then shows is the
  error alone: its error branch returns before the list is looked at, so the samples are
  in the state and not on the screen.
\<close>

theorem first_page_failure_shows_error_only:
  "\<exists>m. m \<noteq> [] \<and>
       error (loadRecipes_settle False (Rejected err) h) = Some m \<and>
       recipes (loadRecipes_settle False (Rejected err) h) = mockRecipes \<and>
       length (recipes (loadRecipes_settle False (Rejected err) h)) = 3 \<and>
       \<not> hasMore (ctx (loadRecipes_settle False (Rejected err) h)) \<and>
       RecipeGrid (recipes (loadRecipes_settle False (Rejected err) h))
                  (loading (loadRecipes_settle False (Rejected err) h))
                  (error (loadRecipes_settle False (Rejected err) h)) = ErrorView m"
  by (simp add: loadRecipes_settle_def loadRecipes_finally_def Let_def setHasMore_def
      setIsLoadingMore_def RecipeGrid_def length_mockRecipes split: list.split)

section \<open>Persistence of the favorites\<close>

lemma no_call_no_change: "\<not> calls_setFavorites a s \<Longrightarrow> apply_action a s = s"
  by (cases a) (auto simp: addFavorite_def toggleFavorite_def split: if_splits)

lemma save_effect_writes:
  "mirrored (save_favorites_effect True t) \<and> app (save_favorites_effect True t) = app t \<and>
   console (save_favorites_effect True t) = console t"
  by (simp add: save_favorites_effect_def setItem_def mirrored_def)

lemma save_effect_swallows:
  "localStorage (save_favorites_effect False t) = localStorage t \<and>
   app (save_favorites_effect False t) = app t \<and>
   console (save_favorites_effect False t)
     = console t @ [''Error saving favorites to localStorage:'']"
  by (simp add: save_favorites_effect_def setItem_def)

lemma mirrored_app_cong:
  "mirrored t \<Longrightarrow> favorites s = favorites (app t) \<Longrightarrow> mirrored (t\<lparr>app := s\<rparr>)"
  by (simp add: mirrored_def)

lemma mutation_keeps_mirrored:
  "mirrored t \<Longrightarrow> mirrored (favorites_mutation True a t)"
proof (cases "calls_setFavorites a (app t)")
  case True
  then show ?thesis
    using save_effect_writes [of "t\<lparr>app := apply_action a (app t)\<rparr>"]
    by (simp add: favorites_mutation_def)
next
  case False
  assume "mirrored t"
  with False show ?thesis
    by (simp add: favorites_mutation_def no_call_no_change mirrored_app_cong)
qed

lemma run_keeps_mirrored:
  "mirrored t \<Longrightarrow> \<forall>s\<in>set steps. fst s \<Longrightarrow> mirrored (run_mutations steps t)"
proof (induction steps arbitrary: t)
  case Nil
  then show ?case by simp
next
  case (Cons s steps)
  obtain w a where s: "s = (w, a)" by (cases s)
  with Cons.prems(2) have w: "w" and rest: "\<forall>s\<in>set steps. fst s" by auto
  from mutation_keeps_mirrored [OF Cons.prems(1), of a] w
  have "mirrored (favorites_mutation w a t)" by simp
  from Cons.IH [OF this rest] s show ?case by simp
qed

text \<open>
  C6. Take the tab after a save effect that succeeded (the last thing that happens when
  the provider is created). After every mutation of a run in which the writes succeed,
  the key \<open>recipe_favorites\<close> holds the serialization of the list in memory; and from any
  state at all, a mutation that reaches \<open>setFavorites\<close> with a successful write puts it
  there. A mutation never fails and always leaves the list that the pure operation
  computes, whatever the storage does. When the write fails, the store is untouched and
  one line goes to the console.
\<close>

theorem favorites_persisted:
  "((\<forall>s\<in>set steps. fst s) \<longrightarrow>
      mirrored (run_mutations steps (save_favorites_effect True t0))) \<and>
   (w \<and> calls_setFavorites a (app t) \<longrightarrow> mirrored (favorites_mutation w a t)) \<and>
   app (favorites_mutation w a t) = apply_action a (app t) \<and>
   (\<not> w \<longrightarrow>
      localStorage (favorites_mutation w a t) = localStorage t \<and>
      console (favorites_mutation w a t) =
        (if calls_setFavorites a (app t)
         then console t @ [''Error saving favorites to localStorage:'']
         else console t))"
proof -
  have run: "mirrored (run_mutations steps (save_favorites_effect True t0))"
    if "\<forall>s\<in>set steps. fst s"
    using save_effect_writes [of t0] that by (simp add: run_keeps_mirrored)
  have written: "mirrored (favorites_mutation w a t)" if "w \<and> calls_setFavorites a (app t)"
    using that save_effect_writes [of "t\<lparr>app := apply_action a (app t)\<rparr>"]
    by (simp add: favorites_mutation_def)
  have mem: "app (favorites_mutation w a t) = apply_action a (app t)"
    using save_effect_writes [of "t\<lparr>app := apply_action a (app t)\<rparr>"]
      save_effect_swallows [of "t\<lparr>app := apply_action a (app t)\<rparr>"]
    by (cases w) (simp_all add: favorites_mutation_def)
  have failed: "localStorage (favorites_mutation w a t) = localStorage t \<and>
      console (favorites_mutation w a t) =
        (if calls_setFavorites a (app t)
         then console t @ [''Error saving favorites to localStorage:'']
         else console t)" if "\<not> w"
    using that save_effect_swallows [of "t\<lparr>app := apply_action a (app t)\<rparr>"]
    by (simp add: favorites_mutation_def)
  from run written mem failed show ?thesis by blast
qed

theorem favorites_persisted_witness:
  "fst (True, ToggleFavorite ''1'') \<and> fst (True, AddFavorite ''1'') \<and>
   fst (True, AddFavorite ''2'') \<and>
   localStorage (run_mutations
       [(True, ToggleFavorite ''1''), (True, AddFavorite ''1''), (True, AddFavorite ''2'')]
       (save_favorites_effect True
          \<lparr>app = initial_state, localStorage = Map.empty, console = []\<rparr>)) ''recipe_favorites''
     = Some [CHR ''['', CHR 0x22, CHR ''1'', CHR 0x22, CHR '','',
             CHR 0x22, CHR ''2'', CHR 0x22, CHR '']''] \<and>
   favorites (app (favorites_mutation False (ToggleFavorite ''1'')
               \<lparr>app = initial_state, localStorage = Map.empty, console = []\<rparr>)) = [''1''] \<and>
   localStorage (favorites_mutation False (ToggleFavorite ''1'')
               \<lparr>app = initial_state, localStorage = Map.empty, console = []\<rparr>) = Map.empty \<and>
   console (favorites_mutation False (ToggleFavorite ''1'')
               \<lparr>app = initial_state, localStorage = Map.empty, console = []\<rparr>)
     = [''Error saving favorites to localStorage:'']"
proof -
  let ?t = "\<lparr>app = initial_state, localStorage = Map.empty, console = []\<rparr>"
  let ?steps = "[(True, ToggleFavorite ''1''), (True, AddFavorite ''1''), (True, AddFavorite ''2'')]"
  have ok: "\<forall>s\<in>set ?steps. fst s"
    by simp
  have c: "calls_setFavorites (ToggleFavorite ''1'') (app ?t)"
    by (simp add: initial_state_def)
  have f: "favorites (apply_action (ToggleFavorite ''1'') (app ?t)) = [''1'']"
    by (simp add: initial_state_def toggleFavorite_def addFavorite_def)
  have l: "favorites (app (run_mutations ?steps (save_favorites_effect True ?t))) = [''1'', ''2'']"
    by (simp add: favorites_mutation_def save_favorites_effect_def setItem_def
        initial_state_def toggleFavorite_def addFavorite_def)
  from ok favorites_persisted [of ?steps ?t]
  have "mirrored (run_mutations ?steps (save_favorites_effect True ?t))"
    by blast
  with l have st: "localStorage (run_mutations ?steps (save_favorites_effect True ?t))
       ''recipe_favorites''
     = Some [CHR ''['', CHR 0x22, CHR ''1'', CHR 0x22, CHR '','',
             CHR 0x22, CHR ''2'', CHR 0x22, CHR '']'']"
    by (simp add: mirrored_def JSON_stringify_def QuoteJSONString_def quote_char_def)
  from c favorites_persisted [of _ _ False "ToggleFavorite ''1''" ?t] f
  have n: "favorites (app (favorites_mutation False (ToggleFavorite ''1'') ?t)) = [''1'']"
    "localStorage (favorites_mutation False (ToggleFavorite ''1'') ?t) = Map.empty"
    "console (favorites_mutation False (ToggleFavorite ''1'') ?t)
       = [''Error saving favorites to localStorage:'']"
    by simp_all
  from st n show ?thesis by simp
qed

section \<open>Normalization of the recipe list response\<close>

lemma apiGet_respond_with: "apiGet (respond_with payload) req = Inr payload"
  by (simp add: apiGet_def respond_with_def response_ok_def)

text \<open>
  C2, as the code has it. Let the request succeed with a payload. A bare array of length
  N gives \<open>{recipes: array, total: N, hasMore: false, page: 1}\<close>. An object gives: its
  \<open>recipes\<close> when that is truthy, else its \<open>data\<close> when that is truthy, else the empty
  array; its \<open>total\<close> when truthy, else 0; its \<open>hasMore\<close> when the key is there, else
  false; its \<open>page\<close> when truthy, else the requested page. The envelope
  \<open>{recipes: [...], total: 5, hasMore: true, page: 2}\<close> comes out unchanged.
\<close>

theorem fetchRecipes_normalizes:
  assumes "apiGet net (recipes_request flt q page pageSize) = Inr result"
  shows
    "(result = JArr xs \<longrightarrow>
        fetchRecipes net flt q page pageSize =
          Inr \<lparr>res_recipes = Some (JArr xs), res_total = Some (JNum (int (length xs))),
               res_hasMore = Some (JBool False), res_page = Some (JNum 1)\<rparr>) \<and>
     (result = JObj kvs \<longrightarrow>
        fetchRecipes net flt q page pageSize =
          Inr \<lparr>res_recipes =
                 (if truthy (get_prop result ''recipes'') then get_prop result ''recipes''
                  else if truthy (get_prop result ''data'') then get_prop result ''data''
                  else Some (JArr [])),
               res_total =
                 (if truthy (get_prop result ''total'') then get_prop result ''total''
                  else Some (JNum 0)),
               res_hasMore =
                 (case get_prop result ''hasMore'' of
                    None \<Rightarrow> Some (JBool False) | Some v \<Rightarrow> Some v),
               res_page =
                 (if truthy (get_prop result ''page'') then get_prop result ''page''
                  else Some (JNum page))\<rparr>) \<and>
     (result = JObj [(''recipes'', JArr rs), (''total'', JNum 5),
                     (''hasMore'', JBool True), (''page'', JNum 2)] \<longrightarrow>
        fetchRecipes net flt q page pageSize =
          Inr \<lparr>res_recipes = Some (JArr rs), res_total = Some (JNum 5),
               res_hasMore = Some (JBool True), res_page = Some (JNum 2)\<rparr>)"
proof -
  have bare: "fetchRecipes net flt q page pageSize =
          Inr \<lparr>res_recipes = Some (JArr xs), res_total = Some (JNum (int (length xs))),
               res_hasMore = Some (JBool False), res_page = Some (JNum 1)\<rparr>"
    if "result = JArr xs"
    using assms that by (simp add: fetchRecipes_def)
  have envelope: "fetchRecipes net flt q page pageSize =
          Inr \<lparr>res_recipes =
                 (if truthy (get_prop result ''recipes'') then get_prop result ''recipes''
                  else if truthy (get_prop result ''data'') then get_prop result ''data''
                  else Some (JArr [])),
               res_total =
                 (if truthy (get_prop result ''total'') then get_prop result ''total''
                  else Some (JNum 0)),
               res_hasMore =
                 (case get_prop result ''hasMore'' of
                    None \<Rightarrow> Some (JBool False) | Some v \<Rightarrow> Some v),
               res_page =
                 (if truthy (get_prop result ''page'') then get_prop result ''page''
                  else Some (JNum page))\<rparr>"
    if "result = JObj kvs" for kvs
    using assms that by (simp add: fetchRecipes_def js_or_def split: option.splits)
  have example: "fetchRecipes net flt q page pageSize =
          Inr \<lparr>res_recipes = Some (JArr rs), res_total = Some (JNum 5),
               res_hasMore = Some (JBool True), res_page = Some (JNum 2)\<rparr>"
    if "result = JObj [(''recipes'', JArr rs), (''total'', JNum 5),
                     (''hasMore'', JBool True), (''page'', JNum 2)]"
    using envelope [OF that] that by simp
  from bare envelope example show ?thesis by blast
qed

theorem fetchRecipes_normalizes_witness:
  "apiGet (respond_with (JObj [(''data'', JArr [JStr ''r'']), (''hasMore'', JNull)]))
      (recipes_request defaultFilters [] 3 12)
     = Inr (JObj [(''data'', JArr [JStr ''r'']), (''hasMore'', JNull)]) \<and>
   fetchRecipes (respond_with (JObj [(''data'', JArr [JStr ''r'']), (''hasMore'', JNull)]))
      defaultFilters [] 3 12
     = Inr \<lparr>res_recipes = Some (JArr [JStr ''r'']), res_total = Some (JNum 0),
            res_hasMore = Some JNull, res_page = Some (JNum 3)\<rparr> \<and>
   fetchRecipes (respond_with (JArr [JStr ''a'', JStr ''b''])) defaultFilters [] 3 12
     = Inr \<lparr>res_recipes = Some (JArr [JStr ''a'', JStr ''b'']), res_total = Some (JNum 2),
            res_hasMore = Some (JBool False), res_page = Some (JNum 1)\<rparr>"
proof -
  let ?env = "JObj [(''data'', JArr [JStr ''r'']), (''hasMore'', JNull)]"
  let ?arr = "JArr [JStr ''a'', JStr ''b'']"
  have a: "apiGet (respond_with ?env) (recipes_request defaultFilters [] 3 12) = Inr ?env"
    by (rule apiGet_respond_with)
  have b: "apiGet (respond_with ?arr) (recipes_request defaultFilters [] 3 12) = Inr ?arr"
    by (rule apiGet_respond_with)
  from fetchRecipes_normalizes [OF a, of _ "[(''data'', JArr [JStr ''r'']), (''hasMore'', JNull)]"]
  have e: "fetchRecipes (respond_with ?env) defaultFilters [] 3 12
     = Inr \<lparr>res_recipes = Some (JArr [JStr ''r'']), res_total = Some (JNum 0),
            res_hasMore = Some JNull, res_page = Some (JNum 3)\<rparr>"
    by simp
  from fetchRecipes_normalizes [OF b, of "[JStr ''a'', JStr ''b'']"]
  have f: "fetchRecipes (respond_with ?arr) defaultFilters [] 3 12
     = Inr \<lparr>res_recipes = Some ?arr, res_total = Some (JNum 2),
            res_hasMore = Some (JBool False), res_page = Some (JNum 1)\<rparr>"
    by simp
  from a e f show ?thesis by blast
qed

text \<open>
  The claim as written fails on an envelope whose \<open>page\<close> is 0: the key is there, and
  the result carries the requested page instead. A \<open>null\<close> payload is not normalized at
  all: reading its properties throws.
\<close>

theorem fetchRecipes_page_zero_counterexample:
  "get_prop (JObj [(''recipes'', JArr []), (''total'', JNum 5),
                   (''hasMore'', JBool True), (''page'', JNum 0)]) ''page'' = Some (JNum 0) \<and>
   fetchRecipes (respond_with (JObj [(''recipes'', JArr []), (''total'', JNum 5),
                   (''hasMore'', JBool True), (''page'', JNum 0)])) defaultFilters [] 2 12
     = Inr \<lparr>res_recipes = Some (JArr []), res_total = Some (JNum 5),
            res_hasMore = Some (JBool True), res_page = Some (JNum 2)\<rparr> \<and>
   fetchRecipes (respond_with JNull) defaultFilters [] 2 12
     = Inl (TypeError ''Cannot read properties of null'')"
  by (simp add: fetchRecipes_def apiGet_respond_with js_or_def)

section \<open>Filtering in the favorites view\<close>

lemma filter_throwing_Inr:
  "filter_throwing p xs = Inr ys \<Longrightarrow>
     (\<forall>x\<in>set xs. \<exists>b. p x = Inr b) \<and> ys = filter (\<lambda>x. p x = Inr True) xs"
proof (induction xs arbitrary: ys)
  case Nil
  then show ?case by simp
next
  case (Cons x xs)
  from Cons.prems obtain b zs where b: "p x = Inr b" and zs: "filter_throwing p xs = Inr zs"
    and ys: "ys = (if b then x # zs else zs)"
    by (auto split: sum.splits)
  from Cons.IH [OF zs] b ys show ?case by auto
qed

lemma filter_throwing_total:
  "\<forall>x\<in>set xs. \<exists>b. p x = Inr b \<Longrightarrow>
     filter_throwing p xs = Inr (filter (\<lambda>x. p x = Inr True) xs)"
  by (induction xs) auto

lemma filter_throwing_throws:
  "x \<in> set xs \<Longrightarrow> p x = Inl e \<Longrightarrow> \<exists>e'. filter_throwing p xs = Inl e'"
  by (induction xs) (auto split: sum.splits)

lemma matches_search_spec:
  "matches_search (toLowerCase q) r = Inr b \<Longrightarrow> b = search_spec q r"
  by (auto simp: matches_search_def search_spec_def contains_ci_def str_includes_def
      split: option.splits if_splits)

lemma cuisine_matches_spec:
  "cuisine_matches flt r = Inr b \<Longrightarrow> b = equals_ci (recipe_cuisine r) (cuisine flt)"
  by (auto simp: cuisine_matches_def equals_ci_def split: option.splits)

lemma diet_matches_spec:
  "diet_matches flt r = Inr b \<Longrightarrow> b = equals_ci (recipe_diet r) (diet flt)"
  by (auto simp: diet_matches_def equals_ci_def split: option.splits)

lemma filter_throwing_spec:
  assumes "filter_throwing p xs = Inr ys" and "\<And>x b. p x = Inr b \<Longrightarrow> b = P x"
  shows "ys = filter P xs"
proof -
  from filter_throwing_Inr [OF assms(1)]
  have ok: "\<forall>x\<in>set xs. \<exists>b. p x = Inr b" and ys: "ys = filter (\<lambda>x. p x = Inr True) xs"
    by simp_all
  have "filter (\<lambda>x. p x = Inr True) xs = filter P xs"
  proof (rule filter_cong [OF refl])
    fix x assume "x \<in> set xs"
    with ok obtain b where b: "p x = Inr b" by blast
    with assms(2) [OF b] show "(p x = Inr True) = P x" by simp
  qed
  with ys show ?thesis by simp
qed

lemma favoriteRecipes_Inr:
  assumes "favoriteRecipes allRecipes favs q flt = Inr res"
  shows "res = filter (favorites_view_spec favs q flt) allRecipes"
proof -
  let ?r0 = "filter (\<lambda>recipe. array_includes favs (recipe_id recipe)) allRecipes"
  from assms obtain r1 r2 r3 where
    s1: "(if q \<noteq> [] then filter_throwing (matches_search (toLowerCase q)) ?r0 else Inr ?r0) = Inr r1"
    and s2: "(if cuisine flt \<noteq> [] then filter_throwing (cuisine_matches flt) r1 else Inr r1) = Inr r2"
    and s3: "(if diet flt \<noteq> [] then filter_throwing (diet_matches flt) r2 else Inr r2) = Inr r3"
    and s4: "res = (if maxTime flt \<noteq> [] then filter (within_maxTime flt) r3 else r3)"
    unfolding favoriteRecipes_def by (auto split: sum.splits)
  have r0: "?r0 = filter (\<lambda>r. recipe_id r \<in> set favs) allRecipes"
    by (simp add: includes_set)
  have r1: "r1 = filter (\<lambda>r. q = [] \<or> search_spec q r) ?r0"
  proof (cases "q = []")
    case True
    with s1 show ?thesis by simp
  next
    case False
    with s1 have "filter_throwing (matches_search (toLowerCase q)) ?r0 = Inr r1" by simp
    from filter_throwing_spec [OF this matches_search_spec] False show ?thesis by simp
  qed
  have r2: "r2 = filter (\<lambda>r. cuisine flt = [] \<or> equals_ci (recipe_cuisine r) (cuisine flt)) r1"
  proof (cases "cuisine flt = []")
    case True
    with s2 show ?thesis by simp
  next
    case False
    with s2 have "filter_throwing (cuisine_matches flt) r1 = Inr r2" by simp
    from filter_throwing_spec [OF this cuisine_matches_spec] False show ?thesis by simp
  qed
  have r3: "r3 = filter (\<lambda>r. diet flt = [] \<or> equals_ci (recipe_diet r) (diet flt)) r2"
  proof (cases "diet flt = []")
    case True
    with s3 show ?thesis by simp
  next
    case False
    with s3 have "filter_throwing (diet_matches flt) r2 = Inr r3" by simp
    from filter_throwing_spec [OF this diet_matches_spec] False show ?thesis by simp
  qed
  have r4: "res = filter (\<lambda>r. maxTime flt = [] \<or> within_maxTime flt r) r3"
    using s4 by simp
  show ?thesis
    unfolding r4 r3 r2 r1 r0 filter_filter
    by (rule filter_cong [OF refl]) (auto simp: favorites_view_spec_def within_maxTime_def)
qed

lemma favoriteRecipes_total:
  assumes "\<forall>r\<in>set allRecipes. recipe_id r \<in> set favs \<longrightarrow> fields_present q flt r"
  shows "\<exists>res. favoriteRecipes allRecipes favs q flt = Inr res"
proof -
  let ?r0 = "filter (\<lambda>recipe. array_includes favs (recipe_id recipe)) allRecipes"
  have full: "fields_present q flt r" if "r \<in> set ?r0" for r
    using that assms by (auto simp: includes_set)
  have "\<exists>b. matches_search (toLowerCase q) r = Inr b" if "r \<in> set ?r0" and "q \<noteq> []" for r
  proof -
    from full [OF that(1)] that(2) obtain n c
      where "recipe_name r = Some n" "recipe_cuisine r = Some c"
      by (auto simp: fields_present_def)
    then show ?thesis by (auto simp: matches_search_def split: option.splits)
  qed
  then have "q \<noteq> [] \<Longrightarrow> \<forall>r\<in>set ?r0. \<exists>b. matches_search (toLowerCase q) r = Inr b"
    by blast
  from filter_throwing_total [OF this]
  obtain r1 where s1: "(if q \<noteq> [] then filter_throwing (matches_search (toLowerCase q)) ?r0 else Inr ?r0) = Inr r1"
    and sub1: "set r1 \<subseteq> set ?r0"
    by (cases "q = []") auto
  have "\<exists>b. cuisine_matches flt r = Inr b" if "r \<in> set r1" and "cuisine flt \<noteq> []" for r
  proof -
    from that(1) sub1 have "r \<in> set ?r0" by blast
    from full [OF this] that(2) obtain c where "recipe_cuisine r = Some c"
      by (auto simp: fields_present_def)
    then show ?thesis by (simp add: cuisine_matches_def)
  qed
  then have "cuisine flt \<noteq> [] \<Longrightarrow> \<forall>r\<in>set r1. \<exists>b. cuisine_matches flt r = Inr b"
    by blast
  from filter_throwing_total [OF this]
  obtain r2 where s2: "(if cuisine flt \<noteq> [] then filter_throwing (cuisine_matches flt) r1 else Inr r1) = Inr r2"
    and sub2: "set r2 \<subseteq> set r1"
    by (cases "cuisine flt = []") auto
  have "\<exists>b. diet_matches flt r = Inr b" if "r \<in> set r2" and "diet flt \<noteq> []" for r
  proof -
    from that(1) sub1 sub2 have "r \<in> set ?r0" by blast
    from full [OF this] that(2) obtain d where "recipe_diet r = Some d"
      by (auto simp: fields_present_def)
    then show ?thesis by (simp add: diet_matches_def)
  qed
  then have "diet flt \<noteq> [] \<Longrightarrow> \<forall>r\<in>set r2. \<exists>b. diet_matches flt r = Inr b"
    by blast
  from filter_throwing_total [OF this]
  obtain r3 where s3: "(if diet flt \<noteq> [] then filter_throwing (diet_matches flt) r2 else Inr r2) = Inr r3"
    by (cases "diet flt = []") auto
  show ?thesis
    unfolding favoriteRecipes_def using s1 s2 s3 by simp
qed

lemma parseInt_45: "parseInt ''45'' = Some 45"
  by (simp add: parseInt_def is_space_def is_digit_def digits_value_def)

lemma example_view:
  "favoriteRecipes example_recipes [''1'', ''2''] [] \<lparr>cuisine = [], diet = [], maxTime = ''45''\<rparr>
     = Inr [\<lparr>recipe_id = ''1'', recipe_name = None, recipe_description = None,
             recipe_image = None, recipe_cuisine = Some ''Italian'', recipe_diet = None,
             recipe_cookTime = Some 30, recipe_difficulty = None, recipe_ingredients = None\<rparr>]"
  by (simp add: favoriteRecipes_def example_recipes_def within_maxTime_def parseInt_45)

text \<open>
  C7, as the code has it. Whenever the computation returns, its result is the list of
  fetched recipes, in their order, that the specification's wording selects: identifier
  among the favorites, search text matched, cuisine and diet equal up to case, cook time
  at most the ceiling. It returns, with that list, when every favorited recipe carries
  the fields that the search text and the filters in force read. On the specification's
  example (two recipes, both favorites, \<open>maxTime\<close> 45) the result is exactly the recipe
  with identifier 1.
\<close>

theorem favorites_view_filter:
  "(favoriteRecipes allRecipes favs q flt = Inr res \<longrightarrow>
      res = filter (favorites_view_spec favs q flt) allRecipes) \<and>
   ((\<forall>r\<in>set allRecipes. recipe_id r \<in> set favs \<longrightarrow> fields_present q flt r) \<longrightarrow>
      favoriteRecipes allRecipes favs q flt
        = Inr (filter (favorites_view_spec favs q flt) allRecipes)) \<and>
   favoriteRecipes example_recipes [''1'', ''2''] [] \<lparr>cuisine = [], diet = [], maxTime = ''45''\<rparr>
     = Inr [\<lparr>recipe_id = ''1'', recipe_name = None, recipe_description = None,
             recipe_image = None, recipe_cuisine = Some ''Italian'', recipe_diet = None,
             recipe_cookTime = Some 30, recipe_difficulty = None, recipe_ingredients = None\<rparr>]"
proof -
  have partial: "res = filter (favorites_view_spec favs q flt) allRecipes"
    if "favoriteRecipes allRecipes favs q flt = Inr res"
    using that by (rule favoriteRecipes_Inr)
  have total: "favoriteRecipes allRecipes favs q flt
        = Inr (filter (favorites_view_spec favs q flt) allRecipes)"
    if "\<forall>r\<in>set allRecipes. recipe_id r \<in> set favs \<longrightarrow> fields_present q flt r"
  proof -
    from favoriteRecipes_total [OF that] obtain ys
      where ys: "favoriteRecipes allRecipes favs q flt = Inr ys" by blast
    from favoriteRecipes_Inr [OF ys] ys show ?thesis by simp
  qed
  from partial total example_view show ?thesis by blast
qed

theorem favorites_view_filter_witness:
  "fields_present [] \<lparr>cuisine = [], diet = [], maxTime = ''45''\<rparr> (example_recipes ! 0) \<and>
   fields_present [] \<lparr>cuisine = [], diet = [], maxTime = ''45''\<rparr> (example_recipes ! 1) \<and>
   favoriteRecipes example_recipes [''1'', ''2''] [] \<lparr>cuisine = [], diet = [], maxTime = ''45''\<rparr>
     = Inr (take 1 example_recipes) \<and>
   filter (favorites_view_spec [''1'', ''2''] [] \<lparr>cuisine = [], diet = [], maxTime = ''45''\<rparr>)
      example_recipes = take 1 example_recipes \<and>
   map recipe_id (take 1 example_recipes) = [''1'']"
proof -
  let ?f = "\<lparr>cuisine = [], diet = [], maxTime = ''45''\<rparr>"
  have p: "\<forall>r\<in>set example_recipes. recipe_id r \<in> set [''1'', ''2''] \<longrightarrow> fields_present [] ?f r"
    by (simp add: fields_present_def)
  have t: "take 1 example_recipes
     = [\<lparr>recipe_id = ''1'', recipe_name = None, recipe_description = None,
             recipe_image = None, recipe_cuisine = Some ''Italian'', recipe_diet = None,
             recipe_cookTime = Some 30, recipe_difficulty = None, recipe_ingredients = None\<rparr>]"
    by (simp add: example_recipes_def)
  from favorites_view_filter [of example_recipes "[''1'', ''2'']" "[]" ?f "take 1 example_recipes"]
  have r: "favoriteRecipes example_recipes [''1'', ''2''] [] ?f = Inr (take 1 example_recipes)"
    and e: "(\<forall>r\<in>set example_recipes. recipe_id r \<in> set [''1'', ''2''] \<longrightarrow> fields_present [] ?f r)
            \<longrightarrow> favoriteRecipes example_recipes [''1'', ''2''] [] ?f
                  = Inr (filter (favorites_view_spec [''1'', ''2''] [] ?f) example_recipes)"
    using t by simp_all
  from e p r have "filter (favorites_view_spec [''1'', ''2''] [] ?f) example_recipes
                     = take 1 example_recipes"
    by simp
  moreover have "fields_present [] ?f (example_recipes ! 0)"
    and "fields_present [] ?f (example_recipes ! 1)"
    by (simp_all add: fields_present_def)
  ultimately show ?thesis using r t by simp
qed

text \<open>
  The claim as written fails on a favorited recipe without \<open>diet\<close> under a diet filter:
  the third sample recipe is such a one. The list that the wording selects is empty (a
  missing diet equals no filter value), and the computation throws instead of returning
  it.
\<close>

theorem favorites_view_missing_diet_counterexample:
  "recipe_diet (mockRecipes ! 2) = None \<and>
   filter (favorites_view_spec [''3''] [] \<lparr>cuisine = [], diet = ''vegan'', maxTime = []\<rparr>)
      mockRecipes = [] \<and>
   favoriteRecipes mockRecipes [''3''] [] \<lparr>cuisine = [], diet = ''vegan'', maxTime = []\<rparr>
     = Inl (TypeError ''recipe.diet is undefined'')"
  by (simp add: mockRecipes_def favorites_view_spec_def equals_ci_def favoriteRecipes_def
      diet_matches_def)

lemma lower_curry: "toLowerCase ''curry'' = ''curry''"
  by (simp add: toLowerCase_def lower_char_def)

text \<open>
  C8. With the search text "curry" and no filter active, every recipe of the result has
  "curry" inside its lower-cased name, cuisine or space-joined ingredients, and the result
  is exactly the favorited recipes with such a match.
\<close>

theorem curry_search_only_matches:
  assumes "cuisine flt = []" and "diet flt = []" and "maxTime flt = []"
    and "favoriteRecipes allRecipes favs ''curry'' flt = Inr res"
  shows "(\<forall>r\<in>set res.
            (\<exists>n. recipe_name r = Some n \<and> sublist ''curry'' (toLowerCase n)) \<or>
            (\<exists>c. recipe_cuisine r = Some c \<and> sublist ''curry'' (toLowerCase c)) \<or>
            (\<exists>ings. recipe_ingredients r = Some ings \<and>
                    sublist ''curry'' (toLowerCase (join '' '' ings)))) \<and>
         res = filter (\<lambda>r. recipe_id r \<in> set favs \<and>
                 ((\<exists>n. recipe_name r = Some n \<and> sublist ''curry'' (toLowerCase n)) \<or>
                  (\<exists>c. recipe_cuisine r = Some c \<and> sublist ''curry'' (toLowerCase c)) \<or>
                  (\<exists>ings. recipe_ingredients r = Some ings \<and>
                          sublist ''curry'' (toLowerCase (join '' '' ings))))) allRecipes"
proof -
  let ?hit = "\<lambda>r. (\<exists>n. recipe_name r = Some n \<and> sublist ''curry'' (toLowerCase n)) \<or>
            (\<exists>c. recipe_cuisine r = Some c \<and> sublist ''curry'' (toLowerCase c)) \<or>
            (\<exists>ings. recipe_ingredients r = Some ings \<and>
                    sublist ''curry'' (toLowerCase (join '' '' ings)))"
  have hit: "search_spec ''curry'' r = ?hit r" for r
    by (auto simp: search_spec_def contains_ci_def lower_curry split: option.splits)
  have "favorites_view_spec favs ''curry'' flt = (\<lambda>r. recipe_id r \<in> set favs \<and> ?hit r)"
    using assms(1-3) by (intro ext) (simp add: favorites_view_spec_def hit)
  with favoriteRecipes_Inr [OF assms(4)]
  have res: "res = filter (\<lambda>r. recipe_id r \<in> set favs \<and> ?hit r) allRecipes"
    by simp
  then have "\<forall>r\<in>set res. ?hit r" by simp
  with res show ?thesis by blast
qed

lemma curry_on_samples:
  "favoriteRecipes mockRecipes [''1'', ''2'', ''3''] ''curry'' defaultFilters
     = Inr [mockRecipes ! 1]"
  by (simp add: favoriteRecipes_def mockRecipes_def defaultFilters_def matches_search_def
      str_includes_def toLowerCase_def lower_char_def sublist_Cons_right)

theorem curry_search_only_matches_witness:
  "cuisine defaultFilters = [] \<and> diet defaultFilters = [] \<and> maxTime defaultFilters = [] \<and>
   favoriteRecipes mockRecipes [''1'', ''2'', ''3''] ''curry'' defaultFilters
     = Inr [mockRecipes ! 1] \<and>
   recipe_name (mockRecipes ! 1) = Some ''Spicy Thai Green Curry'' \<and>
   [mockRecipes ! 1] = filter (\<lambda>r. recipe_id r \<in> set [''1'', ''2'', ''3''] \<and>
                 ((\<exists>n. recipe_name r = Some n \<and> sublist ''curry'' (toLowerCase n)) \<or>
                  (\<exists>c. recipe_cuisine r = Some c \<and> sublist ''curry'' (toLowerCase c)) \<or>
                  (\<exists>ings. recipe_ingredients r = Some ings \<and>
                          sublist ''curry'' (toLowerCase (join '' '' ings))))) mockRecipes"
proof -
  have f: "cuisine defaultFilters = []" "diet defaultFilters = []" "maxTime defaultFilters = []"
    by (simp_all add: defaultFilters_def)
  have n: "recipe_name (mockRecipes ! 1) = Some ''Spicy Thai Green Curry''"
    by (simp add: mockRecipes_def)
  from curry_search_only_matches [OF f curry_on_samples] f curry_on_samples n
  show ?thesis by blast
qed


lemma search_pass_keeps:
  assumes "(if q \<noteq> [] then filter_throwing (matches_search (toLowerCase q)) xs else Inr xs) = Inr ys"
    and "r \<in> set xs" and "q = [] \<or> search_spec q r"
  shows "r \<in> set ys"
proof (cases "q = []")
  case True
  with assms(1,2) show ?thesis by simp
next
  case False
  with assms(1) have "filter_throwing (matches_search (toLowerCase q)) xs = Inr ys" by simp
  from filter_throwing_spec [OF this matches_search_spec] assms(2,3) False
  show ?thesis by simp
qed

lemma cuisine_pass_keeps:
  assumes "(if cuisine flt \<noteq> [] then filter_throwing (cuisine_matches flt) xs else Inr xs) = Inr ys"
    and "r \<in> set xs" and "cuisine flt = [] \<or> equals_ci (recipe_cuisine r) (cuisine flt)"
  shows "r \<in> set ys"
proof (cases "cuisine flt = []")
  case True
  with assms(1,2) show ?thesis by simp
next
  case False
  with assms(1) have "filter_throwing (cuisine_matches flt) xs = Inr ys" by simp
  from filter_throwing_spec [OF this cuisine_matches_spec] assms(2,3) False
  show ?thesis by simp
qed

lemma missing_cuisine_throws:
  assumes "r \<in> set allRecipes" and "recipe_id r \<in> set favs" and "recipe_cuisine r = None"
    and "q \<noteq> []" and "\<not> contains_ci (recipe_name r) q"
  shows "\<exists>e. favoriteRecipes allRecipes favs q flt = Inl e"
proof -
  let ?r0 = "filter (\<lambda>recipe. array_includes favs (recipe_id recipe)) allRecipes"
  from assms(1,2) have mem: "r \<in> set ?r0" by (simp add: includes_set)
  from assms(3,5) obtain e where "matches_search (toLowerCase q) r = Inl e"
    by (auto simp: matches_search_def contains_ci_def str_includes_def split: option.splits)
  with mem filter_throwing_throws [of r ?r0 "matches_search (toLowerCase q)" e] obtain e'
    where "filter_throwing (matches_search (toLowerCase q)) ?r0 = Inl e'" by blast
  with assms(4) show ?thesis by (simp add: favoriteRecipes_def)
qed

lemma missing_diet_throws:
  assumes "r \<in> set allRecipes" and "recipe_id r \<in> set favs" and "recipe_diet r = None"
    and "diet flt \<noteq> []" and "q = [] \<or> search_spec q r"
    and "cuisine flt = [] \<or> equals_ci (recipe_cuisine r) (cuisine flt)"
  shows "\<exists>e. favoriteRecipes allRecipes favs q flt = Inl e"
proof -
  let ?r0 = "filter (\<lambda>recipe. array_includes favs (recipe_id recipe)) allRecipes"
  let ?s1 = "if q \<noteq> [] then filter_throwing (matches_search (toLowerCase q)) ?r0 else Inr ?r0"
  from assms(1,2) have mem0: "r \<in> set ?r0" by (simp add: includes_set)
  show ?thesis
  proof (cases ?s1)
    case (Inl e)
    then show ?thesis by (simp add: favoriteRecipes_def)
  next
    case (Inr r1)
    from search_pass_keeps [OF Inr mem0 assms(5)] have mem1: "r \<in> set r1" .
    let ?s2 = "if cuisine flt \<noteq> [] then filter_throwing (cuisine_matches flt) r1 else Inr r1"
    show ?thesis
    proof (cases ?s2)
      case (Inl e)
      with \<open>?s1 = Inr r1\<close> show ?thesis by (simp add: favoriteRecipes_def)
    next
      case s2: (Inr r2)
      from cuisine_pass_keeps [OF s2 mem1 assms(6)] have mem2: "r \<in> set r2" .
      from assms(3) obtain e where "diet_matches flt r = Inl e"
        by (simp add: diet_matches_def)
      with mem2 filter_throwing_throws [of r r2 "diet_matches flt" e] obtain e'
        where "filter_throwing (diet_matches flt) r2 = Inl e'" by blast
      with assms(4) Inr s2 show ?thesis by (simp add: favoriteRecipes_def)
    qed
  qed
qed

text \<open>
  C9, as the code has it. A favorited recipe without \<open>cuisine\<close> makes the computation throw
  when the search text is not empty and does not occur in the recipe's name. A favorited
  recipe without \<open>diet\<close> makes it throw when the diet filter is active and the recipe is
  still a candidate at that point, that is, when it passes the search text and the cuisine
  filter.
\<close>

theorem favorites_view_throws_on_missing_fields:
  "(r \<in> set allRecipes \<and> recipe_id r \<in> set favs \<and> recipe_cuisine r = None \<and>
    q \<noteq> [] \<and> \<not> contains_ci (recipe_name r) q \<longrightarrow>
      (\<exists>e. favoriteRecipes allRecipes favs q flt = Inl e)) \<and>
   (r \<in> set allRecipes \<and> recipe_id r \<in> set favs \<and> recipe_diet r = None \<and>
    diet flt \<noteq> [] \<and> (q = [] \<or> search_spec q r) \<and>
    (cuisine flt = [] \<or> equals_ci (recipe_cuisine r) (cuisine flt)) \<longrightarrow>
      (\<exists>e. favoriteRecipes allRecipes favs q flt = Inl e))"
  using missing_cuisine_throws [of r allRecipes favs q flt]
    missing_diet_throws [of r allRecipes favs flt q]
  by blast

theorem favorites_view_throws_on_missing_fields_witness:
  "example_recipes ! 0 \<in> set example_recipes \<and>
   recipe_id (example_recipes ! 0) \<in> set [''1''] \<and>
   recipe_diet (example_recipes ! 0) = None \<and>
   diet \<lparr>cuisine = [], diet = ''vegan'', maxTime = []\<rparr> \<noteq> [] \<and>
   (\<exists>e. favoriteRecipes example_recipes [''1''] []
           \<lparr>cuisine = [], diet = ''vegan'', maxTime = []\<rparr> = Inl e) \<and>
   recipe_id (mockRecipes ! 2) \<in> set [''3''] \<and>
   recipe_cuisine ((mockRecipes ! 2)\<lparr>recipe_cuisine := None\<rparr>) = None \<and>
   \<not> contains_ci (recipe_name ((mockRecipes ! 2)\<lparr>recipe_cuisine := None\<rparr>)) ''pizza'' \<and>
   (\<exists>e. favoriteRecipes [(mockRecipes ! 2)\<lparr>recipe_cuisine := None\<rparr>] [''3''] ''pizza''
           defaultFilters = Inl e)"
proof -
  let ?r = "example_recipes ! 0"
  let ?f = "\<lparr>cuisine = [], diet = ''vegan'', maxTime = []\<rparr>"
  let ?c = "(mockRecipes ! 2)\<lparr>recipe_cuisine := None\<rparr>"
  have a: "?r \<in> set example_recipes" "recipe_id ?r \<in> set [''1'']" "recipe_diet ?r = None"
    "diet ?f \<noteq> []"
    by (simp_all add: example_recipes_def)
  have b: "?c \<in> set [?c]" "recipe_id ?c \<in> set [''3'']" "recipe_cuisine ?c = None"
    "''pizza'' \<noteq> []"
    by (simp_all add: mockRecipes_def)
  have n: "\<not> contains_ci (recipe_name ?c) ''pizza''"
    by (simp add: mockRecipes_def contains_ci_def toLowerCase_def lower_char_def
        sublist_Cons_right)
  from a favorites_view_throws_on_missing_fields [of ?r example_recipes "[''1'']" "[]" ?f]
  have d: "\<exists>e. favoriteRecipes example_recipes [''1''] [] ?f = Inl e"
    by simp
  from b n favorites_view_throws_on_missing_fields [of ?c "[?c]" "[''3'']" "''pizza''" defaultFilters]
  have c: "\<exists>e. favoriteRecipes [?c] [''3''] ''pizza'' defaultFilters = Inl e"
    by simp
  from a b n c d show ?thesis by simp
qed

text \<open>
  The claim as written fails for a recipe that an earlier pass has dropped: the third
  sample recipe has no \<open>diet\<close>, the diet filter is active, and the cuisine filter removes
  the recipe before its diet is read, so the result is the empty list and nothing is
  thrown.
\<close>

theorem missing_diet_no_throw_counterexample:
  "mockRecipes ! 2 \<in> set mockRecipes \<and>
   array_includes [''3''] (recipe_id (mockRecipes ! 2)) \<and>
   recipe_diet (mockRecipes ! 2) = None \<and>
   diet \<lparr>cuisine = ''thai'', diet = ''vegan'', maxTime = []\<rparr> \<noteq> [] \<and>
   favoriteRecipes mockRecipes [''3''] [] \<lparr>cuisine = ''thai'', diet = ''vegan'', maxTime = []\<rparr>
     = Inr []"
  by (simp add: mockRecipes_def favoriteRecipes_def cuisine_matches_def toLowerCase_def
      lower_char_def)

end
